theory Spec2Isabelle
  imports Main "HOL-Library.AList" "HOL-Library.Sublist"
begin

section \<open>Data model of build.py\<close>

text \<open>
  Python \<open>str\<close> values are modelled as \<open>string\<close>; one \<open>char\<close> stands for one code
  point (the model covers the code points U+0000 to U+00FF), so \<open>length\<close> is Python's
  \<open>len\<close> of a \<open>str\<close>.

  A \<open>pathlib.Path\<close> on POSIX is its root (\<open>''''\<close>, \<open>''/''\<close> or \<open>''//''\<close>) and the list of
  its components. Python compares two paths by their string form, which for parsed paths
  (no empty component, no \<open>.\<close> component, no separator inside a component) is equality of
  root and components.
\<close>

datatype path = Path (root: string) (tail: "string list")

datatype error =
    FileNotFoundError | PermissionError | IsADirectoryError
  | UnicodeDecodeError | KeyError | ValueError | NotImplementedError

text \<open>
  The three filesystem errors are subclasses of \<open>OSError\<close>: the I/O errors.
  \<open>UnicodeDecodeError\<close> is a subclass of \<open>ValueError\<close> and no I/O error.
\<close>

fun is_os_error :: "error \<Rightarrow> bool" where
  "is_os_error FileNotFoundError = True"
| "is_os_error PermissionError = True"
| "is_os_error IsADirectoryError = True"
| "is_os_error _ = False"

subsection \<open>posixpath and pathlib\<close>

text \<open>\<open>str.split(sep)\<close> for a one-character separator.\<close>

fun split_sep :: "char \<Rightarrow> string \<Rightarrow> string list" where
  "split_sep c [] = [[]]"
| "split_sep c (x # xs) =
     (if x = c then [] # split_sep c xs
      else (case split_sep c xs of
              w # ws \<Rightarrow> (x # w) # ws
            | [] \<Rightarrow> [[x]]))"

text \<open>\<open>sep.join(xs)\<close>.\<close>

fun join :: "string \<Rightarrow> string list \<Rightarrow> string" where
  "join sep [] = []"
| "join sep [x] = x"
| "join sep (x # y # ys) = x @ sep @ join sep (y # ys)"

text \<open>
  \<open>posixpath.splitroot\<close> without the (always empty) drive: a relative path has no root,
  exactly two leading slashes are the root \<open>//\<close>, any other number is the root \<open>/\<close>.
\<close>

definition splitroot :: "string \<Rightarrow> string \<times> string" where
  "splitroot p =
     (if take 1 p \<noteq> ''/'' then ('''', p)
      else if take 1 (drop 1 p) \<noteq> ''/'' \<or> take 1 (drop 2 p) = ''/'' then (''/'', drop 1 p)
      else (take 2 p, drop 2 p))"

text \<open>\<open>Path(s)\<close> for a string \<open>s\<close> (\<open>PurePath._parse_path\<close>).\<close>

definition path_of_str :: "string \<Rightarrow> path" where
  "path_of_str s =
     (if s = [] then Path [] []
      else (case splitroot s of
              (r, rel) \<Rightarrow> Path r (filter (\<lambda>x. x \<noteq> [] \<and> x \<noteq> ''.'') (split_sep CHR ''/'' rel))))"

text \<open>\<open>str(p)\<close> for a path \<open>p\<close>.\<close>

definition str_of_path :: "path \<Rightarrow> string" where
  "str_of_path p =
     (let s = root p @ join ''/'' (tail p) in if s = [] then ''.'' else s)"

definition is_absolute :: "path \<Rightarrow> bool" where
  "is_absolute p = (root p \<noteq> [])"

text \<open>
  \<open>p.is_relative_to(other)\<close> is \<open>other == p or other in p.parents\<close>: same root, and the
  components of \<open>other\<close> are the first components of \<open>p\<close>.
\<close>

definition is_relative_to :: "path \<Rightarrow> path \<Rightarrow> bool" where
  "is_relative_to p other =
     (root p = root other \<and> take (length (tail other)) (tail p) = tail other)"

text \<open>
  \<open>p.relative_to(other)\<close>; the source calls it only where \<open>is_relative_to\<close> holds, where
  pathlib does not raise.
\<close>

definition relative_to :: "path \<Rightarrow> path \<Rightarrow> path" where
  "relative_to p other = Path [] (drop (length (tail other)) (tail p))"

text \<open>
  \<open>posixpath.normpath\<close>: the loop over the components keeps a stack \<open>new_comps\<close>.
\<close>

fun norm_comps :: "bool \<Rightarrow> string list \<Rightarrow> string list \<Rightarrow> string list" where
  "norm_comps rooted new_comps [] = new_comps"
| "norm_comps rooted new_comps (cmp # comps) =
     (if cmp = [] \<or> cmp = ''.'' then norm_comps rooted new_comps comps
      else if cmp \<noteq> ''..'' \<or> (\<not> rooted \<and> new_comps = [])
              \<or> (new_comps \<noteq> [] \<and> last new_comps = ''..'')
           then norm_comps rooted (new_comps @ [cmp]) comps
      else if new_comps \<noteq> [] then norm_comps rooted (butlast new_comps) comps
      else norm_comps rooted new_comps comps)"

definition normpath :: "string \<Rightarrow> string" where
  "normpath p =
     (if p = [] then ''.''
      else (case splitroot p of
              (initial_slashes, rest) \<Rightarrow>
                (let comps = norm_comps (initial_slashes \<noteq> []) [] (split_sep CHR ''/'' rest);
                     res = initial_slashes @ join ''/'' comps
                 in if res = [] then ''.'' else res)))"

text \<open>\<open>posixpath.join(a, b)\<close> for two arguments.\<close>

definition posix_join :: "string \<Rightarrow> string \<Rightarrow> string" where
  "posix_join a b =
     (if take 1 b = ''/'' then b
      else if a = [] \<or> last a = CHR ''/'' then a @ b
      else a @ ''/'' @ b)"

subsection \<open>The filesystem\<close>

text \<open>
  What the program reads from disk: a path names nothing (\<open>None\<close>), a readable regular
  file with its decoded text, a regular file that may not be opened, a regular file whose
  bytes are not valid UTF-8, or a directory.
\<close>

datatype fsnode = File string | Locked | Undecodable | Dir

type_synonym filesystem = "path \<Rightarrow> fsnode option"

text \<open>\<open>open(p, "r", encoding="utf-8").read()\<close> and \<open>p.read_text("utf-8")\<close>.\<close>

definition read_file :: "filesystem \<Rightarrow> path \<Rightarrow> error + string" where
  "read_file fs p =
     (case fs p of
        None \<Rightarrow> Inl FileNotFoundError
      | Some (File c) \<Rightarrow> Inr c
      | Some Locked \<Rightarrow> Inl PermissionError
      | Some Undecodable \<Rightarrow> Inl UnicodeDecodeError
      | Some Dir \<Rightarrow> Inl IsADirectoryError)"

text \<open>\<open>p.exists() and p.is_file()\<close>.\<close>

definition is_file :: "filesystem \<Rightarrow> path \<Rightarrow> bool" where
  "is_file fs p =
     (case fs p of
        Some (File c) \<Rightarrow> True
      | Some Locked \<Rightarrow> True
      | Some Undecodable \<Rightarrow> True
      | _ \<Rightarrow> False)"

subsection \<open>ZipBuilder\<close>

text \<open>
  The two dictionaries of \<open>ZipBuilder\<close> are association lists with distinct keys in
  insertion order, as Python dictionaries are: \<open>AList.update\<close> keeps the place of a
  key that is present and appends a new one, \<open>AList.delete\<close> removes a key.
\<close>

record zip_builder =
  zb_files :: "(path \<times> (string \<times> path)) list"
  zb_texts :: "(path \<times> string) list"

definition zb_init :: zip_builder where
  "zb_init = \<lparr>zb_files = [], zb_texts = []\<rparr>"

definition has_key :: "'k \<Rightarrow> ('k \<times> 'v) list \<Rightarrow> bool" where
  "has_key k al = (map_of al k \<noteq> None)"

text \<open>
  \<open>ZipBuilder.add_file(file, dest)\<close>: the test and the deletion are on \<open>file\<close>, the
  source path, and happen before the file is opened.
\<close>

definition zb_add_file ::
  "filesystem \<Rightarrow> path \<Rightarrow> path \<Rightarrow> zip_builder \<Rightarrow> error option \<times> zip_builder" where
  "zb_add_file fs file dest z =
     (let z1 = (if has_key file (zb_texts z)
                then z\<lparr>zb_texts := AList.delete file (zb_texts z)\<rparr> else z)
      in case read_file fs file of
           Inl e \<Rightarrow> (Some e, z1)
         | Inr c \<Rightarrow> (None, z1\<lparr>zb_files := AList.update dest (c, file) (zb_files z1)\<rparr>))"

text \<open>
  \<open>ZipBuilder.add_text(text, dest)\<close>: when \<open>dest\<close> is a key of \<open>files\<close> the source
  deletes \<open>texts[dest]\<close>, which raises \<open>KeyError\<close> when \<open>dest\<close> is not a key of \<open>texts\<close>.
\<close>

definition zb_add_text :: "string \<Rightarrow> path \<Rightarrow> zip_builder \<Rightarrow> error option \<times> zip_builder" where
  "zb_add_text text file z =
     (if has_key file (zb_files z) then
        (if has_key file (zb_texts z)
         then (None, z\<lparr>zb_texts := AList.update file text (AList.delete file (zb_texts z))\<rparr>)
         else (Some KeyError, z))
      else (None, z\<lparr>zb_texts := AList.update file text (zb_texts z)\<rparr>))"

definition del_entry :: "path \<Rightarrow> zip_builder \<Rightarrow> zip_builder" where
  "del_entry p z =
     z\<lparr>zb_files := AList.delete p (zb_files z), zb_texts := AList.delete p (zb_texts z)\<rparr>"

definition zb_get :: "path \<Rightarrow> zip_builder \<Rightarrow> error + string" where
  "zb_get p z =
     (case map_of (zb_files z) p of
        Some f \<Rightarrow> Inr (fst f)
      | None \<Rightarrow>
          (case map_of (zb_texts z) p of
             Some t \<Rightarrow> Inr t
           | None \<Rightarrow> Inl FileNotFoundError))"

definition zb_has :: "path \<Rightarrow> zip_builder \<Rightarrow> bool" where
  "zb_has p z = (has_key p (zb_files z) \<or> has_key p (zb_texts z))"

text \<open>
  \<open>build_zip\<close>: the archive is modelled by the list of its members (name and content) in
  the order \<open>writestr\<close> is called: one call per key of \<open>files\<close>, then one per key of
  \<open>texts\<close>, each with the content \<open>get\<close> returns for that key.
\<close>

fun writestr_all :: "zip_builder \<Rightarrow> path list \<Rightarrow> error + (string \<times> string) list" where
  "writestr_all z [] = Inr []"
| "writestr_all z (p # ps) =
     (case zb_get p z of
        Inl e \<Rightarrow> Inl e
      | Inr c \<Rightarrow>
          (case writestr_all z ps of
             Inl e \<Rightarrow> Inl e
           | Inr ms \<Rightarrow> Inr ((str_of_path p, c) # ms)))"

definition build_zip :: "zip_builder \<Rightarrow> error + (string \<times> string) list" where
  "build_zip z =
     (case writestr_all z (map fst (zb_files z)) of
        Inl e \<Rightarrow> Inl e
      | Inr a \<Rightarrow>
          (case writestr_all z (map fst (zb_texts z)) of
             Inl e \<Rightarrow> Inl e
           | Inr b \<Rightarrow> Inr (a @ b)))"

subsection \<open>string.Template and json.dumps\<close>

text \<open>
  The identifiers of \<open>string.Template\<close>: \<open>[_a-z][_a-z0-9]*\<close>, ASCII only, matched
  ignoring case.
\<close>

definition ident_start :: "char \<Rightarrow> bool" where
  "ident_start c =
     (let n = (of_char c :: nat)
      in c = CHR ''_'' \<or> (97 \<le> n \<and> n \<le> 122) \<or> (65 \<le> n \<and> n \<le> 90))"

definition ident_char :: "char \<Rightarrow> bool" where
  "ident_char c = (ident_start c \<or> (48 \<le> (of_char c :: nat) \<and> (of_char c :: nat) \<le> 57))"

text \<open>
  \<open>Template(t).substitute(mapping)\<close>, left to right over \<open>t\<close>: \<open>$$\<close> is a dollar sign,
  \<open>$name\<close> and \<open>${name}\<close> are replaced by \<open>mapping[name]\<close> (\<open>KeyError\<close> when the name is
  missing), any other \<open>$\<close> is an invalid placeholder (\<open>ValueError\<close>). The first failing
  placeholder decides the error.
\<close>

definition prepend :: "string \<Rightarrow> error + string \<Rightarrow> error + string" where
  "prepend v r = (case r of Inl e \<Rightarrow> Inl e | Inr s \<Rightarrow> Inr (v @ s))"

function substitute :: "(string \<times> string) list \<Rightarrow> string \<Rightarrow> error + string" where
  "substitute m [] = Inr []"
| "substitute m (c # cs) =
     (if c \<noteq> CHR ''$'' then prepend [c] (substitute m cs)
      else (case cs of
              [] \<Rightarrow> Inl ValueError
            | d # ds \<Rightarrow>
                if d = CHR ''$'' then prepend ''$'' (substitute m ds)
                else if ident_start d then
                  (case map_of m (d # takeWhile ident_char ds) of
                     None \<Rightarrow> Inl KeyError
                   | Some v \<Rightarrow> prepend v (substitute m (dropWhile ident_char ds)))
                else if d = CHR ''{'' then
                  (case ds of
                     [] \<Rightarrow> Inl ValueError
                   | e # es \<Rightarrow>
                       if ident_start e \<and> take 1 (dropWhile ident_char es) = ''}'' then
                         (case map_of m (e # takeWhile ident_char es) of
                            None \<Rightarrow> Inl KeyError
                          | Some v \<Rightarrow> prepend v (substitute m (drop 1 (dropWhile ident_char es))))
                       else Inl ValueError)
                else Inl ValueError))"
  by pat_completeness auto
termination
proof (relation "measure (\<lambda>(m, s). length s)")
  show "wf (measure (\<lambda>(m, s). length s))" by simp
next
  fix m :: "(string \<times> string) list" and c :: char and cs :: string
  show "((m, cs), m, c # cs) \<in> measure (\<lambda>(m, s). length s)" by simp
next
  fix m :: "(string \<times> string) list" and c d :: char and cs ds :: string
  assume "cs = d # ds"
  then show "((m, ds), m, c # cs) \<in> measure (\<lambda>(m, s). length s)" by simp
next
  fix m :: "(string \<times> string) list" and c d :: char and cs ds :: string
  assume "cs = d # ds"
  moreover have "length (dropWhile ident_char ds) \<le> length ds"
    by (rule length_dropWhile_le)
  ultimately show "((m, dropWhile ident_char ds), m, c # cs) \<in> measure (\<lambda>(m, s). length s)"
    by simp
next
  fix m :: "(string \<times> string) list" and c d e :: char and cs ds es :: string
  assume "cs = d # ds" "ds = e # es"
  moreover have "length (dropWhile ident_char es) \<le> length es"
    by (rule length_dropWhile_le)
  ultimately show
    "((m, drop 1 (dropWhile ident_char es)), m, c # cs) \<in> measure (\<lambda>(m, s). length s)"
    by simp
qed

text \<open>
  \<open>json.dumps(s)\<close> for a string (\<open>ensure_ascii\<close> is on): the quote and the backslash are
  escaped, the usual control characters have their short form, and every other character
  outside the range from the space to the tilde becomes \<open>\u00XX\<close>.
\<close>

definition hex_digit :: "nat \<Rightarrow> char" where
  "hex_digit n = ''0123456789abcdef'' ! (n mod 16)"

definition escape_char :: "char \<Rightarrow> string" where
  "escape_char c =
     (let n = (of_char c :: nat) in
      if c = CHR 0x22 then [CHR 0x5C, CHR 0x22]
      else if c = CHR 0x5C then [CHR 0x5C, CHR 0x5C]
      else if c = CHR 0x0A then [CHR 0x5C, CHR ''n'']
      else if c = CHR 0x0D then [CHR 0x5C, CHR ''r'']
      else if c = CHR 0x09 then [CHR 0x5C, CHR ''t'']
      else if c = CHR 0x08 then [CHR 0x5C, CHR ''b'']
      else if c = CHR 0x0C then [CHR 0x5C, CHR ''f'']
      else if n < 32 \<or> 126 < n then
        [CHR 0x5C, CHR ''u'', CHR ''0'', CHR ''0'', hex_digit (n div 16), hex_digit n]
      else [c])"

definition dumps :: "string \<Rightarrow> string" where
  "dumps s = [CHR 0x22] @ concat (map escape_char s) @ [CHR 0x22]"

subsection \<open>Project\<close>

text \<open>
  A value of the configuration file, as far as its truth value goes (\<open>not v\<close> in Python):
  a boolean, an integer, a string or an array.
\<close>

datatype toml = TBool bool | TInt int | TStr string | TArray "toml list"

fun truthy :: "toml \<Rightarrow> bool" where
  "truthy (TBool b) = b"
| "truthy (TInt i) = (i \<noteq> 0)"
| "truthy (TStr s) = (s \<noteq> [])"
| "truthy (TArray xs) = (xs \<noteq> [])"

text \<open>
  What \<open>Project.__init__\<close> fixes and what the project reads from outside: the resolved
  paths, the filesystem, the files \<open>src_path.rglob("*")\<close> yields, and the configuration
  keys it looks up later (\<open>None\<close> where the key is missing, which is a \<open>KeyError\<close> at the
  lookup; the three strings are the \<open>str\<close> of the configured values).
\<close>

record env =
  src_path :: path
  src_cfg :: path
  toml_cfg :: path
  json_cfg :: path
  index_template :: path
  fs :: filesystem
  walk :: "path list"
  remote_cdn :: "toml option"
  pyscript_version :: "string option"
  script_type :: "string option"
  main_script :: "string option"

record project =
  files :: "path list"
  pyscript_config :: string
  zipb :: zip_builder

definition project_init :: project where
  "project_init = \<lparr>files = [], pyscript_config = [], zipb = zb_init\<rparr>"

definition CDN :: string where
  "CDN = ''https://pyscript.net/releases/$version''"

definition INDEX_LOC :: string where
  "INDEX_LOC = ''index.html''"

text \<open>
  \<open>convert_path\<close>: \<open>None\<close> is the bare \<open>return\<close>. A \<open>Path\<close> object is always true in
  Python, so \<open>not dest_path\<close> in the callers holds for \<open>None\<close> only.
\<close>

definition convert_path :: "env \<Rightarrow> path \<Rightarrow> path option" where
  "convert_path ev p =
     (if is_absolute p then
        (if \<not> is_relative_to p (src_path ev) then None
         else Some (relative_to p (src_path ev)))
      else if is_relative_to p (src_cfg ev) then Some (relative_to p (src_cfg ev))
      else Some p)"

definition gen_file_entry :: "bool \<Rightarrow> path list \<Rightarrow> string" where
  "gen_file_entry toml fls =
     (if toml
      then [CHR 0x0A] @ join [CHR 0x0A]
             (map (\<lambda>pth. dumps (str_of_path pth) @ '' = '' @ [CHR 0x27, CHR 0x27]) fls)
      else [CHR 0x0A] @ join [CHR 0x0A]
             (map (\<lambda>pth. dumps (str_of_path pth) @ '': '' @ [CHR 0x27, CHR 0x27] @ '','') fls))"

definition gen_cfg_replace :: "bool \<Rightarrow> path list \<Rightarrow> (string \<times> string) list" where
  "gen_cfg_replace toml fls = [(''files_entry'', gen_file_entry toml fls)]"

text \<open>
  \<open>_parse_pyscript_cfg\<close> returns the manifest text or raises, and sets
  \<open>pyscript_config\<close> before it reads the template.
\<close>

definition parse_pyscript_cfg :: "env \<Rightarrow> project \<Rightarrow> (error + string) \<times> project" where
  "parse_pyscript_cfg ev p =
     (if is_file (fs ev) (toml_cfg ev) then
        (let p' = p\<lparr>pyscript_config := ''pyscript.toml''\<rparr> in
         case read_file (fs ev) (toml_cfg ev) of
           Inl e \<Rightarrow> (Inl e, p')
         | Inr t \<Rightarrow> (substitute (gen_cfg_replace True (files p')) t, p'))
      else if is_file (fs ev) (json_cfg ev) then
        (let p' = p\<lparr>pyscript_config := ''pyscipt.json''\<rparr> in
         case read_file (fs ev) (json_cfg ev) of
           Inl e \<Rightarrow> (Inl e, p')
         | Inr t \<Rightarrow> (substitute (gen_cfg_replace False (files p')) t, p'))
      else (Inl ValueError, p))"

definition index_context :: "env \<Rightarrow> project \<Rightarrow> error + (string \<times> string) list" where
  "index_context ev p =
     (case pyscript_version ev of
        None \<Rightarrow> Inl KeyError
      | Some v \<Rightarrow>
          (case substitute [(''version'', v)] CDN of
             Inl e \<Rightarrow> Inl e
           | Inr cdn \<Rightarrow>
               (case script_type ev of
                  None \<Rightarrow> Inl KeyError
                | Some st \<Rightarrow>
                    (case main_script ev of
                       None \<Rightarrow> Inl KeyError
                     | Some ms \<Rightarrow>
                         Inr [(''cdn'', cdn), (''script_type'', st), (''main_script'', ms),
                              (''pyscript_config'', pyscript_config p),
                              (''extra_script_params'', [])]))))"

definition parse_index_html :: "env \<Rightarrow> project \<Rightarrow> error + string" where
  "parse_index_html ev p =
     (case read_file (fs ev) (index_template ev) of
        Inl e \<Rightarrow> Inl e
      | Inr t \<Rightarrow>
          (case index_context ev p of
             Inl e \<Rightarrow> Inl e
           | Inr ctx \<Rightarrow> substitute ctx t))"

text \<open>\<open>self.zip.add_text(text, dest)\<close> on the project, \<open>dest\<close> a string.\<close>

definition put_text :: "string \<Rightarrow> string \<Rightarrow> project \<Rightarrow> error option \<times> project" where
  "put_text text dest p =
     (case zb_add_text text (path_of_str dest) (zipb p) of
        (eo, z) \<Rightarrow> (eo, p\<lparr>zipb := z\<rparr>))"

text \<open>
  \<open>_handle_unknwon\<close>: Python evaluates the arguments of \<open>add_text\<close> in order, so the
  destination is the \<open>pyscript_config\<close> that \<open>_parse_pyscript_cfg\<close> has just set.
\<close>

definition handle_unknwon :: "env \<Rightarrow> path \<Rightarrow> project \<Rightarrow> error option \<times> project" where
  "handle_unknwon ev pth p =
     (if pth = toml_cfg ev \<or> pth = json_cfg ev then
        (case parse_pyscript_cfg ev p of
           (Inl e, p') \<Rightarrow> (Some e, p')
         | (Inr text, p') \<Rightarrow> put_text text (pyscript_config p') p')
      else if pth = index_template ev then
        (case parse_index_html ev p of
           Inl e \<Rightarrow> (Some e, p)
         | Inr text \<Rightarrow> put_text text INDEX_LOC p)
      else (None, p))"

text \<open>
  \<open>Project.add_file\<close>: the result of \<open>_parse_pyscript_cfg\<close> is dropped; an exception
  leaves the project as it is at that point.
\<close>

definition add_file :: "env \<Rightarrow> path \<Rightarrow> project \<Rightarrow> error option \<times> project" where
  "add_file ev pth p =
     (case convert_path ev pth of
        None \<Rightarrow> handle_unknwon ev pth p
      | Some dest_path \<Rightarrow>
          (case (if \<not> zb_has dest_path (zipb p) then
                   (case parse_pyscript_cfg ev (p\<lparr>files := files p @ [dest_path]\<rparr>) of
                      (Inl e, p') \<Rightarrow> (Some e, p')
                    | (Inr text, p') \<Rightarrow> (None, p'))
                 else (None, p)) of
             (Some e, p') \<Rightarrow> (Some e, p')
           | (None, p') \<Rightarrow>
               (case zb_add_file (fs ev) pth dest_path (zipb p') of
                  (eo, z) \<Rightarrow> (eo, p'\<lparr>zipb := z\<rparr>))))"

text \<open>
  \<open>Project.del_file\<close>: \<open>list.remove\<close> deletes the first occurrence and raises
  \<open>ValueError\<close> when there is none.
\<close>

definition del_file :: "env \<Rightarrow> path \<Rightarrow> project \<Rightarrow> error option \<times> project" where
  "del_file ev pth p =
     (case convert_path ev pth of
        None \<Rightarrow> (None, p)
      | Some dest_path \<Rightarrow>
          if \<not> zb_has dest_path (zipb p) then (None, p)
          else if dest_path \<notin> set (files p) then (Some ValueError, p)
          else
            (case parse_pyscript_cfg ev
                    (p\<lparr>files := remove1 dest_path (files p),
                       zipb := del_entry dest_path (zipb p)\<rparr>) of
               (Inl e, p') \<Rightarrow> (Some e, p')
             | (Inr text, p') \<Rightarrow> (None, p')))"

text \<open>The loop of \<open>add_src\<close> over the files found under the source root.\<close>

fun add_all :: "env \<Rightarrow> path list \<Rightarrow> project \<Rightarrow> error option \<times> project" where
  "add_all ev [] p = (None, p)"
| "add_all ev (pth # pths) p =
     (if \<not> is_file (fs ev) pth then add_all ev pths p
      else (case add_file ev pth p of
              (Some e, p') \<Rightarrow> (Some e, p')
            | (None, p') \<Rightarrow> add_all ev pths p'))"

definition add_src :: "env \<Rightarrow> project \<Rightarrow> error option \<times> project" where
  "add_src ev p =
     (case remote_cdn ev of
        None \<Rightarrow> (Some KeyError, p)
      | Some v \<Rightarrow>
          if \<not> truthy v then (Some NotImplementedError, p)
          else add_all ev (walk ev) p)"

definition add_templates :: "env \<Rightarrow> project \<Rightarrow> error option \<times> project" where
  "add_templates ev p =
     (case parse_pyscript_cfg ev
             (p\<lparr>files := files p @ [path_of_str (pyscript_config p), path_of_str INDEX_LOC]\<rparr>) of
        (Inl e, p1) \<Rightarrow> (Some e, p1)
      | (Inr text, p1) \<Rightarrow>
          (case put_text text (pyscript_config p1) p1 of
             (Some e, p2) \<Rightarrow> (Some e, p2)
           | (None, p2) \<Rightarrow>
               (case parse_index_html ev p2 of
                  Inl e \<Rightarrow> (Some e, p2)
                | Inr html \<Rightarrow> put_text html INDEX_LOC p2)))"

text \<open>\<open>Project.get\<close> and \<open>Project.has\<close> take the path as a string.\<close>

definition project_get :: "project \<Rightarrow> string \<Rightarrow> error + string" where
  "project_get p s = zb_get (path_of_str s) (zipb p)"

definition project_has :: "project \<Rightarrow> string \<Rightarrow> bool" where
  "project_has p s = zb_has (path_of_str s) (zipb p)"

subsection \<open>ProjectServerHandler\<close>

definition INDEX_PAGES :: "string list" where
  "INDEX_PAGES = [''index.html'', ''index.htm'']"

definition parse_path :: "string \<Rightarrow> string" where
  "parse_path pth = normpath (if take 1 pth = ''/'' then drop 1 pth else pth)"

text \<open>
  \<open>guess_mimetype\<close>; the table of \<open>mimetypes.guess_file_type\<close> is a parameter.
\<close>

definition guess_mimetype :: "(string \<Rightarrow> string option) \<Rightarrow> string \<Rightarrow> string" where
  "guess_mimetype guess pth =
     (case guess pth of
        Some g \<Rightarrow> if g \<noteq> [] then g @ '';charset=utf-8''
                  else ''application/octet-stream;charset=utf-8''
      | None \<Rightarrow> ''application/octet-stream;charset=utf-8'')"

text \<open>\<open>content.encode("utf-8")\<close>: the bytes of the code points below U+0100.\<close>

definition utf8_char :: "char \<Rightarrow> nat list" where
  "utf8_char c =
     (let n = (of_char c :: nat)
      in if n < 128 then [n] else [192 + n div 64, 128 + n mod 64])"

definition encode :: "string \<Rightarrow> nat list" where
  "encode s = concat (map utf8_char s)"

text \<open>\<open>str(n)\<close> for a natural number.\<close>

definition digit_char :: "nat \<Rightarrow> char" where
  "digit_char n = ''0123456789'' ! (n mod 10)"

fun str_of_nat :: "nat \<Rightarrow> string" where
  "str_of_nat n =
     (if n < 10 then [digit_char n] else str_of_nat (n div 10) @ [digit_char n])"

text \<open>
  What the handler sends: \<open>send_error\<close> with a status, or a status line, the headers in
  the order sent, and the bytes written to \<open>wfile\<close>.
\<close>

datatype response =
    SendError nat
  | Response nat "(string \<times> string) list" "nat list"

text \<open>The \<open>for\<close> loop over \<open>INDEX_PAGES\<close>; \<open>None\<close> is its \<open>else\<close> branch.\<close>

fun find_index :: "project \<Rightarrow> string \<Rightarrow> string list \<Rightarrow> string option" where
  "find_index p pth [] = None"
| "find_index p pth (ext # exts) =
     (if project_has p (posix_join pth ext) then Some (posix_join pth ext)
      else find_index p pth exts)"

definition do_get ::
  "(string \<Rightarrow> string option) \<Rightarrow> project option \<Rightarrow> string \<Rightarrow> bool \<Rightarrow> error + response" where
  "do_get guess proj request_path send_content =
     (let pth = parse_path request_path in
      case proj of
        None \<Rightarrow> Inr (SendError 404)
      | Some p \<Rightarrow>
          (case (if \<not> project_has p pth then find_index p pth INDEX_PAGES else Some pth) of
             None \<Rightarrow> Inr (SendError 404)
           | Some pth' \<Rightarrow>
               (case project_get p pth' of
                  Inl e \<Rightarrow> Inl e
                | Inr content \<Rightarrow>
                    Inr (Response 200
                          [(''Content-type'', guess_mimetype guess pth'),
                           (''Content-Length'', str_of_nat (length content))]
                          (if send_content then encode content else [])))))"

definition do_GET :: "(string \<Rightarrow> string option) \<Rightarrow> project option \<Rightarrow> string \<Rightarrow> error + response" where
  "do_GET guess proj request_path = do_get guess proj request_path True"

definition do_HEAD :: "(string \<Rightarrow> string option) \<Rightarrow> project option \<Rightarrow> string \<Rightarrow> error + response" where
  "do_HEAD guess proj request_path = do_get guess proj request_path False"

subsection \<open>Sequences of calls\<close>

text \<open>
  The watcher and \<open>add_src\<close> call \<open>add_file\<close> and \<open>del_file\<close> one after the other; an
  exception ends the sequence, with the project as the failing call left it.
\<close>

datatype call = AddFile path | DelFile path

fun call_path :: "call \<Rightarrow> path" where
  "call_path (AddFile pth) = pth"
| "call_path (DelFile pth) = pth"

fun apply_call :: "env \<Rightarrow> call \<Rightarrow> project \<Rightarrow> error option \<times> project" where
  "apply_call ev (AddFile pth) p = add_file ev pth p"
| "apply_call ev (DelFile pth) p = del_file ev pth p"

fun run_calls :: "env \<Rightarrow> call list \<Rightarrow> project \<Rightarrow> error option \<times> project" where
  "run_calls ev [] p = (None, p)"
| "run_calls ev (c # cs) p =
     (case apply_call ev c p of
        (Some e, p') \<Rightarrow> (Some e, p')
      | (None, p') \<Rightarrow> run_calls ev cs p')"

subsection \<open>Notions of the specification\<close>

text \<open>
  A special input: a path that \<open>convert_path\<close> gives no destination and that is one of
  the three template files.
\<close>

definition is_special :: "env \<Rightarrow> path \<Rightarrow> bool" where
  "is_special ev pth =
     (convert_path ev pth = None
      \<and> (pth = toml_cfg ev \<or> pth = json_cfg ev \<or> pth = index_template ev))"





definition text_keys :: "project \<Rightarrow> path list" where
  "text_keys p = map fst (zb_texts (zipb p))"

subsection \<open>An example project\<close>

text \<open>
  The project directory is \<open>/proj\<close>, with the sources in \<open>/proj/src\<close> and the templates
  in \<open>/proj/cfg\<close>: the TOML manifest template and the entry-page template are present,
  the JSON manifest template is not. The process runs in \<open>/proj\<close>, where \<open>other/x.py\<close>
  is a file outside the source root.
\<close>

definition demo_toml :: path where
  "demo_toml = Path ''/'' [''proj'', ''cfg'', ''pyscript.toml.template'']"

definition demo_json :: path where
  "demo_json = Path ''/'' [''proj'', ''cfg'', ''pyscript.json.template'']"

definition demo_index :: path where
  "demo_index = Path ''/'' [''proj'', ''cfg'', ''index.html.template'']"

definition demo_main :: path where
  "demo_main = Path ''/'' [''proj'', ''src'', ''main.py'']"

definition demo_util :: path where
  "demo_util = Path ''/'' [''proj'', ''src'', ''util.py'']"

definition demo_fs :: filesystem where
  "demo_fs =
     [demo_toml \<mapsto> File ''[files]$files_entry'',
      demo_index \<mapsto> File ''<script src=$cdn type=$script_type config=$pyscript_config>'',
      demo_main \<mapsto> File ''print(1)'',
      demo_util \<mapsto> File ''x = 2'',
      Path [] [''other'', ''x.py''] \<mapsto> File ''y = 3'']"

definition demo_env :: env where
  "demo_env =
     \<lparr>src_path = Path ''/'' [''proj'', ''src''], src_cfg = Path [] [''src''],
      toml_cfg = demo_toml, json_cfg = demo_json, index_template = demo_index,
      fs = demo_fs, walk = [demo_main, demo_util],
      remote_cdn = Some (TBool True), pyscript_version = Some ''2024.1.1'',
      script_type = Some ''py'', main_script = Some ''main.py''\<rparr>"

text \<open>The same project with the JSON manifest template in place of the TOML one.\<close>

definition demo_json_env :: env where
  "demo_json_env =
     demo_env\<lparr>fs := demo_fs(demo_toml := None, demo_json \<mapsto> File ''{$files_entry}'')\<rparr>"

text \<open>The same project with no manifest template at all.\<close>

definition demo_bare_env :: env where
  "demo_bare_env = demo_env\<lparr>fs := demo_fs(demo_toml := None)\<rparr>"

text \<open>
  The same project later on, when three files have been created in the source
  directory: \<open>new.py\<close>, \<open>index.html\<close> and \<open>pyscript.toml\<close>.
\<close>

definition demo_new :: path where
  "demo_new = Path ''/'' [''proj'', ''src'', ''new.py'']"

definition demo_src_index :: path where
  "demo_src_index = Path ''/'' [''proj'', ''src'', ''index.html'']"

definition demo_src_toml :: path where
  "demo_src_toml = Path ''/'' [''proj'', ''src'', ''pyscript.toml'']"

definition demo_later_env :: env where
  "demo_later_env =
     demo_env\<lparr>fs := demo_fs(demo_new \<mapsto> File ''z = 4'',
                              demo_src_index \<mapsto> File ''<p>mine</p>'',
                              demo_src_toml \<mapsto> File ''[mine]'')\<rparr>"

text \<open>The same project with an entry-page template that holds the letter U+00E9.\<close>

definition demo_accent_env :: env where
  "demo_accent_env =
     demo_env\<lparr>fs := demo_fs(demo_index \<mapsto> File (''<p>caf'' @ [CHR 0xE9] @ ''</p>''))\<rparr>"



text \<open>The same project with a source file \<open>bad.py\<close> that is not valid UTF-8.\<close>

definition demo_bad :: path where
  "demo_bad = Path ''/'' [''proj'', ''src'', ''bad.py'']"

definition demo_bad_env :: env where
  "demo_bad_env = demo_env\<lparr>fs := demo_fs(demo_bad \<mapsto> Undecodable)\<rparr>"

text \<open>The project after \<open>main\<close> has run \<open>add_src\<close> and \<open>add_templates\<close>.\<close>

definition started :: "env \<Rightarrow> project" where
  "started ev = snd (add_templates ev (snd (add_src ev project_init)))"

section \<open>Properties\<close>

subsection \<open>Auxiliary facts\<close>

lemma read_file_os_error:
  "read_file f pth = Inl e \<Longrightarrow> is_os_error e \<longleftrightarrow> f pth \<noteq> Some Undecodable"
  by (auto simp: read_file_def split: option.splits fsnode.splits)

lemma has_key_delete: "has_key k (AList.delete k' al) \<Longrightarrow> has_key k al"
  by (simp add: has_key_def delete_conv' split: if_splits)

lemma parse_pyscript_cfg_files [simp]: "files (snd (parse_pyscript_cfg ev p)) = files p"
  by (simp add: parse_pyscript_cfg_def Let_def split: sum.splits)

lemma parse_pyscript_cfg_zipb [simp]: "zipb (snd (parse_pyscript_cfg ev p)) = zipb p"
  by (simp add: parse_pyscript_cfg_def Let_def split: sum.splits)


lemma parse_pyscript_cfg_name:
  "parse_pyscript_cfg ev p = (Inr t, q) \<Longrightarrow>
     pyscript_config q = ''pyscript.toml'' \<or> pyscript_config q = ''pyscipt.json''"
  by (auto simp: parse_pyscript_cfg_def Let_def split: if_splits sum.splits)

lemma parse_pyscript_cfg_fst_cong:
  "files p = files q \<Longrightarrow> fst (parse_pyscript_cfg ev p) = fst (parse_pyscript_cfg ev q)"
  by (simp add: parse_pyscript_cfg_def Let_def split: sum.splits)


lemma put_text_effect:
  assumes "put_text t d p = (None, q)"
  shows "files q = files p" and "pyscript_config q = pyscript_config p"
    and "zb_files (zipb q) = zb_files (zipb p)"
    and "map_of (zb_texts (zipb q)) = (map_of (zb_texts (zipb p)))(path_of_str d \<mapsto> t)"
  using assms
  by (auto simp: put_text_def zb_add_text_def update_conv' delete_conv'
           split: if_splits prod.splits)


lemma manifest_not_index:
  "path_of_str ''pyscript.toml'' \<noteq> path_of_str INDEX_LOC"
  "path_of_str ''pyscipt.json'' \<noteq> path_of_str INDEX_LOC"
  by code_simp+

lemma parse_pyscript_cfg_shape:
  assumes "parse_pyscript_cfg ev p = (Inr t, q)"
  shows "\<exists>toml tmpl. read_file (fs ev) (if toml then toml_cfg ev else json_cfg ev) = Inr tmpl
           \<and> substitute (gen_cfg_replace toml (files p)) tmpl = Inr t
           \<and> pyscript_config q = (if toml then ''pyscript.toml'' else ''pyscipt.json'')"
proof (cases "is_file (fs ev) (toml_cfg ev)")
  case True
  then obtain tmpl where "read_file (fs ev) (toml_cfg ev) = Inr tmpl"
    "substitute (gen_cfg_replace True (files p)) tmpl = Inr t"
    "pyscript_config q = ''pyscript.toml''"
    using assms by (auto simp: parse_pyscript_cfg_def Let_def split: sum.splits)
  then show ?thesis
    by (intro exI [of _ True] exI [of _ tmpl]) simp
next
  case False
  then obtain tmpl where "read_file (fs ev) (json_cfg ev) = Inr tmpl"
    "substitute (gen_cfg_replace False (files p)) tmpl = Inr t"
    "pyscript_config q = ''pyscipt.json''"
    using assms by (auto simp: parse_pyscript_cfg_def Let_def split: sum.splits if_splits)
  then show ?thesis
    by (intro exI [of _ False] exI [of _ tmpl]) simp
qed

lemma index_context_cong:
  "pyscript_config p = pyscript_config q \<Longrightarrow> index_context ev p = index_context ev q"
  by (simp add: index_context_def split: option.splits sum.splits)

lemma parse_index_html_cong:
  assumes "pyscript_config p = pyscript_config q"
  shows "parse_index_html ev p = parse_index_html ev q"
  unfolding parse_index_html_def index_context_cong [OF assms] by (rule refl)

subsection \<open>Substitution into a template\<close>

lemma takeWhile_append_stop: "\<not> P y \<Longrightarrow> takeWhile P (xs @ y # ys) = takeWhile P xs"
  by (induction xs) auto

lemma dropWhile_append_stop:
  "\<not> P y \<Longrightarrow> dropWhile P (xs @ y # ys) = dropWhile P xs @ y # ys"
  by (induction xs) auto

lemma dollar_not_ident [simp]: "\<not> ident_char CHR ''$''" "\<not> ident_start CHR ''$''"
  by (simp_all add: ident_char_def ident_start_def)

lemma prepend_Inr: "prepend v r = Inr s \<longleftrightarrow> (\<exists>s'. r = Inr s' \<and> s = v @ s')"
  by (cases r) (auto simp: prepend_def)

lemma prepend_prepend: "prepend a (prepend b r) = prepend (a @ b) r"
  by (cases r) (simp_all add: prepend_def)

lemma substitute_append_dollar:
  "substitute m a = Inr a' \<Longrightarrow>
     substitute m (a @ CHR ''$'' # r) = prepend a' (substitute m (CHR ''$'' # r))"
proof (induction m a arbitrary: a' rule: substitute.induct)
  case (1 m)
  then show ?case by (simp add: prepend_def split: sum.splits)
next
  case (2 m c cs)
  show ?case
  proof (cases "c = CHR ''$''")
    case False
    then obtain s where s: "substitute m cs = Inr s" "a' = c # s"
      using "2.prems" by (auto simp: prepend_Inr)
    then show ?thesis
      using False "2.IH"(1) [OF False s(1)] by (simp add: prepend_prepend)
  next
    case True
    then obtain d ds where cs: "cs = d # ds"
      using "2.prems" by (cases cs) auto
    show ?thesis
    proof (cases "d = CHR ''$''")
      case dd: True
      then obtain s where s: "substitute m ds = Inr s" "a' = CHR ''$'' # s"
        using "2.prems" True cs by (auto simp: prepend_Inr)
      then show ?thesis
        using True cs dd "2.IH"(2) [OF _ cs dd s(1)] by (simp add: prepend_prepend)
    next
      case nd: False
      show ?thesis
      proof (cases "ident_start d")
        case ids: True
        then obtain v s where v: "map_of m (d # takeWhile ident_char ds) = Some v"
          and s: "substitute m (dropWhile ident_char ds) = Inr s" "a' = v @ s"
          using "2.prems" True cs nd by (auto simp: prepend_Inr split: option.splits)
        show ?thesis
          using True cs nd ids v s "2.IH"(3) [OF _ cs nd ids v s(1)]
          by (simp add: takeWhile_append_stop dropWhile_append_stop prepend_prepend)
      next
        case nids: False
        then have br: "d = CHR ''{''"
          using "2.prems" True cs nd by (auto split: if_splits)
        then obtain e es where ds: "ds = e # es"
          using "2.prems" True cs nd nids by (cases ds) auto
        have cond: "ident_start e \<and> take 1 (dropWhile ident_char es) = ''}''"
          using "2.prems" True cs nd nids br ds by (auto split: if_splits)
        then obtain x xs where dw: "dropWhile ident_char es = x # xs" and x: "x = CHR ''}''"
          by (cases "dropWhile ident_char es") auto
        obtain v s where v: "map_of m (e # takeWhile ident_char es) = Some v"
          and s: "substitute m (drop 1 (dropWhile ident_char es)) = Inr s" "a' = v @ s"
          using "2.prems" True cs nd nids br ds cond
          by (auto simp: prepend_Inr split: option.splits)
        show ?thesis
          using True cs nd nids br ds cond dw x v s
                "2.IH"(4) [OF _ cs nd nids br ds cond v s(1)]
          by (simp add: takeWhile_append_stop dropWhile_append_stop prepend_prepend)
      qed
    qed
  qed
qed

lemma substitute_pyscript_config:
  assumes "map_of m ''pyscript_config'' = Some v"
    and "post = [] \<or> \<not> ident_char (hd post)"
  shows "substitute m (''$pyscript_config'' @ post) = prepend v (substitute m post)"
proof -
  have t: "takeWhile ident_char post = []" and d: "dropWhile ident_char post = post"
    using assms(2) by (cases post; simp)+
  have i: "ident_start CHR ''p''" "list_all ident_char ''yscript_config''"
    by (simp_all add: ident_start_def ident_char_def)
  have tw: "takeWhile ident_char (''yscript_config'' @ post) = ''yscript_config''"
    using i(2) t by (simp add: takeWhile_append2)
  have dw: "dropWhile ident_char (''yscript_config'' @ post) = post"
    using i(2) d by (simp add: dropWhile_append2)
  show ?thesis
    using assms(1) i(1) tw dw by simp
qed

lemma index_context_config:
  "index_context ev q = Inr ctx \<Longrightarrow> map_of ctx ''pyscript_config'' = Some (pyscript_config q)"
  by (auto simp: index_context_def split: option.splits sum.splits)

subsection \<open>What one call does to the tracked list and the archive\<close>






lemma del_file_noop:
  "convert_path ev pth = None \<or> (convert_path ev pth = Some d \<and> \<not> zb_has d (zipb p)) \<Longrightarrow>
     del_file ev pth p = (None, p)"
  by (auto simp: del_file_def)















subsection \<open>The manifest entry after a change of the file set\<close>

text \<open>
  Claim C1: after every \<open>add_file\<close> or \<open>del_file\<close> the manifest entry stored in the
  archive lists exactly the paths of the current tracked list. The code drops the text
  that \<open>_parse_pyscript_cfg\<close> returns in both functions, so the entry keeps its old
  content. In the example project after start-up, adding \<open>new.py\<close> makes the list five
  paths long while the stored manifest still lists the four paths it had; deleting
  \<open>main.py\<close> leaves three paths in the list and the same four in the stored manifest.
\<close>

theorem add_file_stale_manifest:
  "fst (add_src demo_env project_init) = None
   \<and> fst (add_templates demo_env (snd (add_src demo_env project_init))) = None
   \<and> fst (add_file demo_later_env demo_new (started demo_env)) = None
   \<and> files (snd (add_file demo_later_env demo_new (started demo_env)))
       = [Path [] [''main.py''], Path [] [''util.py''], Path [] [''pyscript.toml''],
          Path [] [''index.html''], Path [] [''new.py'']]
   \<and> zb_get (Path [] [''pyscript.toml''])
         (zipb (snd (add_file demo_later_env demo_new (started demo_env))))
       = Inr (''[files]'' @ gen_file_entry True
               [Path [] [''main.py''], Path [] [''util.py''], Path [] [''pyscript.toml''],
                Path [] [''index.html'']])
   \<and> fst (del_file demo_env demo_main (started demo_env)) = None
   \<and> files (snd (del_file demo_env demo_main (started demo_env)))
       = [Path [] [''util.py''], Path [] [''pyscript.toml''], Path [] [''index.html'']]
   \<and> zb_get (Path [] [''pyscript.toml''])
         (zipb (snd (del_file demo_env demo_main (started demo_env))))
       = Inr (''[files]'' @ gen_file_entry True
               [Path [] [''main.py''], Path [] [''util.py''], Path [] [''pyscript.toml''],
                Path [] [''index.html'']])"
  by code_simp

subsection \<open>The derived artifacts and the tracked list\<close>

text \<open>
  Claim C2, as stated: the paths of the two derived artifacts are never members of the
  tracked list, and the regenerated manifest lists real source files only.
  \<open>add_templates\<close> starts with \<open>self.files.extend(...)\<close> on these two paths. After
  start-up of the example project both are in the list, and the stored manifest lists
  them after \<open>main.py\<close> and \<open>util.py\<close>.
\<close>

theorem add_templates_tracks_artifacts_counterexample:
  "fst (add_src demo_env project_init) = None
   \<and> fst (add_templates demo_env (snd (add_src demo_env project_init))) = None
   \<and> path_of_str INDEX_LOC \<in> set (files (started demo_env))
   \<and> path_of_str (pyscript_config (started demo_env)) \<in> set (files (started demo_env))
   \<and> zb_get (path_of_str (pyscript_config (started demo_env))) (zipb (started demo_env))
       = Inr (''[files]'' @ gen_file_entry True
               [Path [] [''main.py''], Path [] [''util.py''], Path [] [''pyscript.toml''],
                Path [] [''index.html'']])"
  by code_simp

text \<open>
  Claim C2, amended: \<open>add_templates\<close>, when it returns without error, has appended two
  paths to the tracked list, the path of the manifest filename the project held before
  the call and the entry page \<open>index.html\<close>, and has left the file-backed entries as they
  were. It has stored both artifacts as text entries: under the manifest filename that
  the regeneration sets, the manifest generated from the extended list, whose body
  therefore lists the two appended paths after the paths tracked before; and under
  \<open>index.html\<close> the entry page generated with that filename.
\<close>

theorem add_templates_extends_files:
  assumes "add_templates ev p = (None, p')"
  shows "files p' = files p @ [path_of_str (pyscript_config p), path_of_str INDEX_LOC]
         \<and> zb_files (zipb p') = zb_files (zipb p)
         \<and> (\<exists>toml tmpl manifest.
               read_file (fs ev) (if toml then toml_cfg ev else json_cfg ev) = Inr tmpl
               \<and> substitute (gen_cfg_replace toml (files p')) tmpl = Inr manifest
               \<and> fst (parse_pyscript_cfg ev p') = Inr manifest
               \<and> pyscript_config p' = (if toml then ''pyscript.toml'' else ''pyscipt.json'')
               \<and> map_of (zb_texts (zipb p')) (path_of_str (pyscript_config p')) = Some manifest)
         \<and> (\<exists>html. parse_index_html ev p' = Inr html
               \<and> map_of (zb_texts (zipb p')) (path_of_str INDEX_LOC) = Some html)"
proof -
  let ?p0 = "p\<lparr>files := files p @ [path_of_str (pyscript_config p), path_of_str INDEX_LOC]\<rparr>"
  obtain r p1 where r: "parse_pyscript_cfg ev ?p0 = (r, p1)"
    by (cases "parse_pyscript_cfg ev ?p0")
  obtain manifest where m: "r = Inr manifest"
    using assms r by (cases r) (auto simp: add_templates_def)
  obtain r2 p2 where p2: "put_text manifest (pyscript_config p1) p1 = (r2, p2)"
    by (cases "put_text manifest (pyscript_config p1) p1")
  have r2: "r2 = None"
    using assms r m p2 by (cases r2) (auto simp: add_templates_def)
  obtain html where h: "parse_index_html ev p2 = Inr html"
    using assms r m p2 r2 by (cases "parse_index_html ev p2") (auto simp: add_templates_def)
  have p': "put_text html INDEX_LOC p2 = (None, p')"
    using assms r m p2 r2 h by (simp add: add_templates_def)
  have f1: "files p1 = files ?p0"
    using parse_pyscript_cfg_files [of ev ?p0] r by simp
  have z1: "zipb p1 = zipb p"
    using parse_pyscript_cfg_zipb [of ev ?p0] r by simp
  note e2 = put_text_effect [OF p2 [unfolded r2]]
  note e3 = put_text_effect [OF p']
  have fl: "files p' = files ?p0"
    using e3(1) e2(1) f1 by simp
  have nm: "pyscript_config p' = pyscript_config p1"
    using e3(2) e2(2) by simp
  have ne: "path_of_str (pyscript_config p1) \<noteq> path_of_str INDEX_LOC"
    using parse_pyscript_cfg_name [OF r [unfolded m]] manifest_not_index by auto
  have st: "map_of (zb_texts (zipb p')) (path_of_str (pyscript_config p')) = Some manifest"
    using e3(4) e2(4) nm ne by simp
  have rg: "fst (parse_pyscript_cfg ev p') = Inr manifest"
    using parse_pyscript_cfg_fst_cong [of p' ?p0 ev] fl r m by simp
  obtain toml tmpl where sh:
    "read_file (fs ev) (if toml then toml_cfg ev else json_cfg ev) = Inr tmpl"
    "substitute (gen_cfg_replace toml (files ?p0)) tmpl = Inr manifest"
    "pyscript_config p1 = (if toml then ''pyscript.toml'' else ''pyscipt.json'')"
    using parse_pyscript_cfg_shape [OF r [unfolded m]] by blast
  have man: "\<exists>toml tmpl manifest.
               read_file (fs ev) (if toml then toml_cfg ev else json_cfg ev) = Inr tmpl
               \<and> substitute (gen_cfg_replace toml (files p')) tmpl = Inr manifest
               \<and> fst (parse_pyscript_cfg ev p') = Inr manifest
               \<and> pyscript_config p' = (if toml then ''pyscript.toml'' else ''pyscipt.json'')
               \<and> map_of (zb_texts (zipb p')) (path_of_str (pyscript_config p')) = Some manifest"
    using sh st rg nm fl by (intro exI [of _ toml] exI [of _ tmpl] exI [of _ manifest]) simp
  have pg: "parse_index_html ev p' = Inr html"
    using parse_index_html_cong [of p' p2 ev] e3(2) h by simp
  have ix: "map_of (zb_texts (zipb p')) (path_of_str INDEX_LOC) = Some html"
    using e3(4) by simp
  have zf: "zb_files (zipb p') = zb_files (zipb p)"
    using e3(3) e2(3) z1 by simp
  show ?thesis
    using fl zf man pg ix by (intro conjI exI [of _ html]) simp_all
qed

text \<open>
  The amended claim on the example project: \<open>add_templates\<close> after \<open>add_src\<close> succeeds,
  the list ends with \<open>pyscript.toml\<close> and \<open>index.html\<close>, and the archive holds the
  manifest and the entry page generated from that state.
\<close>

theorem add_templates_extends_files_witness:
  "add_templates demo_env (snd (add_src demo_env project_init)) = (None, started demo_env)
   \<and> files (started demo_env)
       = [Path [] [''main.py''], Path [] [''util.py''], Path [] [''pyscript.toml''],
          Path [] [''index.html'']]
   \<and> zb_files (zipb (started demo_env)) = zb_files (zipb (snd (add_src demo_env project_init)))
   \<and> (\<exists>manifest. fst (parse_pyscript_cfg demo_env (started demo_env)) = Inr manifest
         \<and> map_of (zb_texts (zipb (started demo_env)))
              (path_of_str (pyscript_config (started demo_env))) = Some manifest)
   \<and> (\<exists>html. parse_index_html demo_env (started demo_env) = Inr html
         \<and> map_of (zb_texts (zipb (started demo_env))) (Path [] [''index.html'']) = Some html)"
proof -
  have ok: "fst (add_templates demo_env (snd (add_src demo_env project_init))) = None"
    by code_simp
  have run: "add_templates demo_env (snd (add_src demo_env project_init))
               = (None, started demo_env)"
    using ok by (simp add: started_def prod_eq_iff)
  have before: "files (snd (add_src demo_env project_init))
                  = [Path [] [''main.py''], Path [] [''util.py'']]"
    "pyscript_config (snd (add_src demo_env project_init)) = ''pyscript.toml''"
    by code_simp+
  have names: "path_of_str ''pyscript.toml'' = Path [] [''pyscript.toml'']"
    "path_of_str INDEX_LOC = Path [] [''index.html'']"
    by code_simp+
  note t = add_templates_extends_files [OF run]
  have 1: "files (started demo_env)
       = [Path [] [''main.py''], Path [] [''util.py''], Path [] [''pyscript.toml''],
          Path [] [''index.html'']]"
    using t [THEN conjunct1] before names by simp
  have 2: "zb_files (zipb (started demo_env))
             = zb_files (zipb (snd (add_src demo_env project_init)))"
    using t [THEN conjunct2, THEN conjunct1] .
  have 3: "\<exists>manifest. fst (parse_pyscript_cfg demo_env (started demo_env)) = Inr manifest
         \<and> map_of (zb_texts (zipb (started demo_env)))
              (path_of_str (pyscript_config (started demo_env))) = Some manifest"
    using t [THEN conjunct2, THEN conjunct2, THEN conjunct1] by blast
  have 4: "\<exists>html. parse_index_html demo_env (started demo_env) = Inr html
         \<and> map_of (zb_texts (zipb (started demo_env))) (Path [] [''index.html'']) = Some html"
    using t [THEN conjunct2, THEN conjunct2, THEN conjunct2] names(2) by simp
  show ?thesis
    using run 1 2 3 4 by (intro conjI)
qed

subsection \<open>File-backed and text entries of one path\<close>

text \<open>
  Claim C3: a path holds at most one of a file-backed entry and a text entry, each put
  replaces the entry of the other kind, and \<open>get\<close> returns what was put last. In the
  code, \<open>ZipBuilder.add_file\<close> tests and deletes the text entry of the source path, not of
  the destination, and \<open>ZipBuilder.add_text\<close> deletes from \<open>texts\<close> where it means
  \<open>files\<close>. So: a text entry at \<open>index.html\<close> followed by a file put there leaves both
  entries; a later text put is stored but \<open>get\<close> still returns the file's content; and a
  text put on a path that holds a file-backed entry only raises \<open>KeyError\<close>.
\<close>

theorem zip_builder_entries_not_exclusive:
  "zb_add_text ''generated'' (Path [] [''index.html'']) zb_init
     = (None, \<lparr>zb_files = [], zb_texts = [(Path [] [''index.html''], ''generated'')]\<rparr>)
   \<and> zb_add_file (fs demo_later_env) demo_src_index (Path [] [''index.html''])
        \<lparr>zb_files = [], zb_texts = [(Path [] [''index.html''], ''generated'')]\<rparr>
     = (None, \<lparr>zb_files = [(Path [] [''index.html''], (''<p>mine</p>'', demo_src_index))],
                zb_texts = [(Path [] [''index.html''], ''generated'')]\<rparr>)
   \<and> zb_add_text ''regenerated'' (Path [] [''index.html''])
        \<lparr>zb_files = [(Path [] [''index.html''], (''<p>mine</p>'', demo_src_index))],
         zb_texts = [(Path [] [''index.html''], ''generated'')]\<rparr>
     = (None, \<lparr>zb_files = [(Path [] [''index.html''], (''<p>mine</p>'', demo_src_index))],
                zb_texts = [(Path [] [''index.html''], ''regenerated'')]\<rparr>)
   \<and> zb_get (Path [] [''index.html''])
        \<lparr>zb_files = [(Path [] [''index.html''], (''<p>mine</p>'', demo_src_index))],
         zb_texts = [(Path [] [''index.html''], ''regenerated'')]\<rparr>
     = Inr ''<p>mine</p>''
   \<and> zb_add_file (fs demo_env) demo_main (Path [] [''main.py'']) zb_init
     = (None, \<lparr>zb_files = [(Path [] [''main.py''], (''print(1)'', demo_main))], zb_texts = []\<rparr>)
   \<and> zb_add_text ''text'' (Path [] [''main.py''])
        \<lparr>zb_files = [(Path [] [''main.py''], (''print(1)'', demo_main))], zb_texts = []\<rparr>
     = (Some KeyError,
        \<lparr>zb_files = [(Path [] [''main.py''], (''print(1)'', demo_main))], zb_texts = []\<rparr>)"
  by code_simp

subsection \<open>The tracked list after a sequence of calls\<close>




subsection \<open>Paths outside the source root\<close>




subsection \<open>Serializing the archive\<close>

text \<open>
  Claim C6: \<open>build_zip\<close> writes one member per entry, and no member name twice.
  \<open>build_zip\<close> writes one member for each key of \<open>files\<close> and one for each key of
  \<open>texts\<close>; a path that is a key of both is written twice. After start-up of the
  example project the file \<open>index.html\<close> is created in the source directory:
  \<open>add_file\<close> succeeds, the path is then a key of both tables, and the archive has two
  members named \<open>index.html\<close>.
\<close>

theorem build_zip_duplicate_member:
  "fst (add_src demo_env project_init) = None
   \<and> fst (add_templates demo_env (snd (add_src demo_env project_init))) = None
   \<and> fst (add_file demo_later_env demo_src_index (started demo_env)) = None
   \<and> files (snd (add_file demo_later_env demo_src_index (started demo_env)))
       = [Path [] [''main.py''], Path [] [''util.py''], Path [] [''pyscript.toml''],
          Path [] [''index.html'']]
   \<and> map_sum id (map fst)
         (build_zip (zipb (snd (add_file demo_later_env demo_src_index (started demo_env)))))
       = Inr [''main.py'', ''util.py'', ''index.html'', ''pyscript.toml'', ''index.html'']"
  by code_simp

subsection \<open>The Content-Length header\<close>

text \<open>
  Claim C7: a served response has status 200 and a Content-Length equal to the byte
  length of the content sent, and a HEAD response has no body. The header is
  \<open>str(len(content))\<close> for the \<open>str\<close> \<open>content\<close>, the number of its characters, while the
  body is its UTF-8 encoding. With an entry page of eleven characters, one of them
  U+00E9, the request \<open>GET /\<close> is answered with Content-Length 11 and twelve bytes.
\<close>

theorem do_get_content_length_counts_characters:
  "fst (add_src demo_accent_env project_init) = None
   \<and> fst (add_templates demo_accent_env (snd (add_src demo_accent_env project_init))) = None
   \<and> zb_get (Path [] [''index.html'']) (zipb (started demo_accent_env))
     = Inr (''<p>caf'' @ [CHR 0xE9] @ ''</p>'')
   \<and> do_GET (\<lambda>s. Some ''text/html'') (Some (started demo_accent_env)) ''/''
     = Inr (Response 200
             [(''Content-type'', ''text/html;charset=utf-8''), (''Content-Length'', ''11'')]
             [60, 112, 62, 99, 97, 102, 195, 169, 60, 47, 112, 62])
   \<and> length [60, 112, 62, 99, 97, 102, 195, 169, 60, 47, 112, 62 :: nat] = 12"
  by code_simp

subsection \<open>The guard of the initial synchronisation\<close>

text \<open>
  Claim C8, as stated: when \<open>runtime.remote_cdn\<close> is false or absent, \<open>add_src\<close> fails
  with the unimplemented-configuration error. For an absent key the lookup itself raises
  \<open>KeyError\<close>, before \<open>NotImplementedError\<close> can be raised.
\<close>

theorem add_src_absent_key_counterexample:
  "remote_cdn (demo_env\<lparr>remote_cdn := None\<rparr>) = None
   \<and> add_src (demo_env\<lparr>remote_cdn := None\<rparr>) project_init = (Some KeyError, project_init)
   \<and> KeyError \<noteq> NotImplementedError"
  by (simp add: add_src_def)

text \<open>
  Claim C8, amended: when \<open>runtime.remote_cdn\<close> is false (or any other false value),
  \<open>add_src\<close> raises \<open>NotImplementedError\<close>; when the key is absent it raises
  \<open>KeyError\<close>. In both cases it does so before it visits any file: whatever the files
  under the source root and the filesystem are, the project is returned unchanged.
\<close>

theorem add_src_guard:
  "(remote_cdn ev = None \<longrightarrow>
      add_src (ev\<lparr>walk := w, fs := f\<rparr>) p = (Some KeyError, p))
   \<and> (\<forall>v. remote_cdn ev = Some v \<and> \<not> truthy v \<longrightarrow>
      add_src (ev\<lparr>walk := w, fs := f\<rparr>) p = (Some NotImplementedError, p))"
  by (simp add: add_src_def)

text \<open>
  The amended claim on the example project, which has two files to visit, with the key
  removed and with the key set to false.
\<close>

theorem add_src_guard_witness:
  "add_src (demo_env\<lparr>remote_cdn := None\<rparr>) project_init = (Some KeyError, project_init)
   \<and> add_src (demo_env\<lparr>remote_cdn := Some (TBool False)\<rparr>) project_init
       = (Some NotImplementedError, project_init)
   \<and> walk demo_env = [demo_main, demo_util]"
  using add_src_guard [where ev = "demo_env\<lparr>remote_cdn := None\<rparr>" and w = "walk demo_env"
                         and f = "fs demo_env" and p = project_init]
        add_src_guard [where ev = "demo_env\<lparr>remote_cdn := Some (TBool False)\<rparr>"
                         and w = "walk demo_env" and f = "fs demo_env" and p = project_init]
  by (simp add: demo_env_def)

subsection \<open>A source file that cannot be read\<close>

text \<open>
  Claim C9, as stated: when the source file of a non-special path that is not tracked
  yet does not exist or cannot be read, \<open>add_file\<close> raises an I/O error after it has
  appended the destination to the tracked list. Three inputs show that it does not.
  The manifest is regenerated between the append and the open: in a project without a
  manifest template the call raises \<open>ValueError\<close> there, which is no I/O error. A source
  file that is not valid UTF-8 cannot be read either, and the error is
  \<open>UnicodeDecodeError\<close>, which is no I/O error. And the code appends when the
  destination has no archive entry, not when it is not in the list: after the manifest
  template has been added, \<open>pyscript.toml\<close> is a text entry and is not tracked, and
  \<open>add_file\<close> on the missing source file \<open>pyscript.toml\<close> raises without an append.
\<close>

theorem add_file_regeneration_error_counterexample:
  "convert_path demo_bare_env (Path ''/'' [''proj'', ''src'', ''gone.py''])
     = Some (Path [] [''gone.py''])
   \<and> \<not> is_special demo_bare_env (Path ''/'' [''proj'', ''src'', ''gone.py''])
   \<and> Path [] [''gone.py''] \<notin> set (files project_init)
   \<and> \<not> zb_has (Path [] [''gone.py'']) (zipb project_init)
   \<and> read_file (fs demo_bare_env) (Path ''/'' [''proj'', ''src'', ''gone.py''])
       = Inl FileNotFoundError
   \<and> fst (add_file demo_bare_env (Path ''/'' [''proj'', ''src'', ''gone.py'']) project_init)
       = Some ValueError
   \<and> \<not> is_os_error ValueError
   \<and> convert_path demo_bad_env demo_bad = Some (Path [] [''bad.py''])
   \<and> \<not> is_special demo_bad_env demo_bad
   \<and> Path [] [''bad.py''] \<notin> set (files project_init)
   \<and> read_file (fs demo_bad_env) demo_bad = Inl UnicodeDecodeError
   \<and> fst (add_file demo_bad_env demo_bad project_init) = Some UnicodeDecodeError
   \<and> \<not> is_os_error UnicodeDecodeError
   \<and> run_calls demo_env [AddFile demo_toml] project_init
       = (None, snd (run_calls demo_env [AddFile demo_toml] project_init))
   \<and> convert_path demo_env demo_src_toml = Some (Path [] [''pyscript.toml''])
   \<and> \<not> is_special demo_env demo_src_toml
   \<and> files (snd (run_calls demo_env [AddFile demo_toml] project_init)) = []
   \<and> read_file (fs demo_env) demo_src_toml = Inl FileNotFoundError
   \<and> fst (add_file demo_env demo_src_toml
             (snd (run_calls demo_env [AddFile demo_toml] project_init)))
       = Some FileNotFoundError
   \<and> files (snd (add_file demo_env demo_src_toml
                    (snd (run_calls demo_env [AddFile demo_toml] project_init)))) = []"
  by code_simp

text \<open>
  Claim C9, amended: when \<open>add_file\<close> is called on a path with a destination that has no
  archive entry yet (the test the code uses for a path not yet tracked) and the source
  file cannot be read, the call raises an error only after it has appended the
  destination to the tracked list, and it creates no archive entry, so the destination is
  tracked without an entry. When the manifest regeneration fails, the error is that of
  the regeneration. Otherwise it is the error of the failed read: an I/O error when the
  file does not exist, may not be opened or is a directory, and \<open>UnicodeDecodeError\<close>,
  which is no I/O error, when the file is not valid UTF-8.
\<close>

theorem add_file_failed_open:
  assumes "convert_path ev pth = Some dest"
    and "\<not> zb_has dest (zipb p)"
    and "read_file (fs ev) pth = Inl e"
  shows "\<exists>err p'. add_file ev pth p = (Some err, p')
           \<and> files p' = files p @ [dest]
           \<and> zb_files (zipb p') = zb_files (zipb p)
           \<and> \<not> zb_has dest (zipb p')
           \<and> (is_os_error e \<longleftrightarrow> fs ev pth \<noteq> Some Undecodable)
           \<and> (e = UnicodeDecodeError \<longleftrightarrow> fs ev pth = Some Undecodable)
           \<and> (case fst (parse_pyscript_cfg ev (p\<lparr>files := files p @ [dest]\<rparr>)) of
                 Inr manifest \<Rightarrow> err = e
               | Inl e' \<Rightarrow> err = e')"
proof -
  let ?q = "p\<lparr>files := files p @ [dest]\<rparr>"
  obtain r q' where pq: "parse_pyscript_cfg ev ?q = (r, q')"
    by (cases "parse_pyscript_cfg ev ?q")
  have fq: "files q' = files p @ [dest]"
    using parse_pyscript_cfg_files [of ev ?q] pq by simp
  have zq: "zipb q' = zipb p"
    using parse_pyscript_cfg_zipb [of ev ?q] pq by simp
  have os: "is_os_error e \<longleftrightarrow> fs ev pth \<noteq> Some Undecodable"
    using assms(3) by (rule read_file_os_error)
  have ud: "e = UnicodeDecodeError \<longleftrightarrow> fs ev pth = Some Undecodable"
    using assms(3) by (auto simp: read_file_def split: option.splits fsnode.splits)
  show ?thesis
  proof (cases r)
    case (Inl e')
    then show ?thesis
      using assms pq fq zq os ud by (simp add: add_file_def)
  next
    case (Inr manifest)
    have "\<not> has_key dest (AList.delete pth (zb_texts (zipb p)))"
      using assms(2) has_key_delete [of dest pth "zb_texts (zipb p)"]
      by (auto simp: zb_has_def)
    then show ?thesis
      using assms pq fq zq os ud Inr
      by (simp add: add_file_def zb_add_file_def zb_has_def Let_def)
  qed
qed

text \<open>
  The amended claim on the example project, for the missing file \<open>/proj/src/gone.py\<close>
  and for the file \<open>/proj/src/bad.py\<close> that is not valid UTF-8: the manifest
  regenerates, the read fails, and the destination is tracked with no entry.
\<close>

theorem add_file_failed_open_witness:
  "(\<exists>err p'. add_file demo_env (Path ''/'' [''proj'', ''src'', ''gone.py'']) project_init
       = (Some err, p')
     \<and> files p' = [Path [] [''gone.py'']]
     \<and> zb_files (zipb p') = []
     \<and> \<not> zb_has (Path [] [''gone.py'']) (zipb p')
     \<and> err = FileNotFoundError)
   \<and> is_os_error FileNotFoundError
   \<and> (\<exists>err p'. add_file demo_bad_env demo_bad project_init = (Some err, p')
     \<and> files p' = [Path [] [''bad.py'']]
     \<and> zb_files (zipb p') = []
     \<and> \<not> zb_has (Path [] [''bad.py'']) (zipb p')
     \<and> err = UnicodeDecodeError)"
proof -
  have c: "convert_path demo_env (Path ''/'' [''proj'', ''src'', ''gone.py''])
             = Some (Path [] [''gone.py''])"
    by code_simp
  have h: "\<not> zb_has (Path [] [''gone.py'']) (zipb project_init)"
    by code_simp
  have r: "read_file (fs demo_env) (Path ''/'' [''proj'', ''src'', ''gone.py''])
             = Inl FileNotFoundError"
    by code_simp
  have g: "fst (parse_pyscript_cfg demo_env
                 (project_init\<lparr>files := files project_init @ [Path [] [''gone.py'']]\<rparr>))
             = Inr (''[files]'' @ gen_file_entry True [Path [] [''gone.py'']])"
    by code_simp
  have c2: "convert_path demo_bad_env demo_bad = Some (Path [] [''bad.py''])"
    by code_simp
  have h2: "\<not> zb_has (Path [] [''bad.py'']) (zipb project_init)"
    by code_simp
  have r2: "read_file (fs demo_bad_env) demo_bad = Inl UnicodeDecodeError"
    by code_simp
  have g2: "fst (parse_pyscript_cfg demo_bad_env
                 (project_init\<lparr>files := files project_init @ [Path [] [''bad.py'']]\<rparr>))
             = Inr (''[files]'' @ gen_file_entry True [Path [] [''bad.py'']])"
    by code_simp
  have f: "files project_init = []" "zb_files (zipb project_init) = []"
    by (simp_all add: project_init_def zb_init_def)
  have one: "\<exists>err p'. add_file demo_env (Path ''/'' [''proj'', ''src'', ''gone.py'']) project_init
       = (Some err, p')
     \<and> files p' = [Path [] [''gone.py'']]
     \<and> zb_files (zipb p') = []
     \<and> \<not> zb_has (Path [] [''gone.py'']) (zipb p')
     \<and> err = FileNotFoundError"
    using add_file_failed_open [OF c h r] g f by auto
  have two: "\<exists>err p'. add_file demo_bad_env demo_bad project_init = (Some err, p')
     \<and> files p' = [Path [] [''bad.py'']]
     \<and> zb_files (zipb p') = []
     \<and> \<not> zb_has (Path [] [''bad.py'']) (zipb p')
     \<and> err = UnicodeDecodeError"
    using add_file_failed_open [OF c2 h2 r2] g2 f by auto
  show ?thesis
    using one two by simp
qed

subsection \<open>The name of the JSON manifest\<close>

text \<open>
  Claim C10: when the TOML manifest template is absent and the JSON one is present,
  regenerating the manifest sets the manifest filename to \<open>pyscipt.json\<close>, and the entry
  page regenerated afterwards has that name where its template has the placeholder
  \<open>$pyscript_config\<close>: for a template \<open>pre $pyscript_config post\<close>, whose parts \<open>pre\<close> and
  \<open>post\<close> substitute to \<open>pre'\<close> and \<open>post'\<close> and where no identifier character follows the
  placeholder, the page is \<open>pre' pyscipt.json post'\<close>.
\<close>

theorem json_manifest_name_misspelled:
  assumes "\<not> is_file (fs ev) (toml_cfg ev)" and "is_file (fs ev) (json_cfg ev)"
  shows "pyscript_config (snd (parse_pyscript_cfg ev p)) = ''pyscipt.json''
         \<and> (\<forall>ctx pre post pre' post'.
               read_file (fs ev) (index_template ev) = Inr (pre @ ''$pyscript_config'' @ post)
               \<and> index_context ev (snd (parse_pyscript_cfg ev p)) = Inr ctx
               \<and> substitute ctx pre = Inr pre' \<and> substitute ctx post = Inr post'
               \<and> (post = [] \<or> \<not> ident_char (hd post))
               \<longrightarrow> parse_index_html ev (snd (parse_pyscript_cfg ev p))
                     = Inr (pre' @ ''pyscipt.json'' @ post'))"
proof -
  let ?q = "snd (parse_pyscript_cfg ev p)"
  have name: "pyscript_config ?q = ''pyscipt.json''"
    using assms by (simp add: parse_pyscript_cfg_def Let_def split: sum.splits)
  have page: "parse_index_html ev ?q = Inr (pre' @ ''pyscipt.json'' @ post')"
    if t: "read_file (fs ev) (index_template ev) = Inr (pre @ ''$pyscript_config'' @ post)"
      and c: "index_context ev ?q = Inr ctx"
      and a: "substitute ctx pre = Inr pre'" and b: "substitute ctx post = Inr post'"
      and e: "post = [] \<or> \<not> ident_char (hd post)"
    for ctx pre post pre' post'
  proof -
    have v: "map_of ctx ''pyscript_config'' = Some ''pyscipt.json''"
      using index_context_config [OF c] name by simp
    have "substitute ctx (pre @ ''$pyscript_config'' @ post)
            = prepend pre' (substitute ctx (''$pyscript_config'' @ post))"
      using substitute_append_dollar [OF a, of "''pyscript_config'' @ post"] by simp
    also have "\<dots> = prepend pre' (prepend ''pyscipt.json'' (substitute ctx post))"
      using substitute_pyscript_config [OF v e] by simp
    also have "\<dots> = Inr (pre' @ ''pyscipt.json'' @ post')"
      using b by (simp add: prepend_def)
    finally show ?thesis
      using t c by (simp add: parse_index_html_def)
  qed
  show ?thesis
    using name page by blast
qed

text \<open>
  Claim C10 on the example project with the JSON template: the entry page names
  \<open>pyscipt.json\<close> as its configuration.
\<close>

theorem json_manifest_name_misspelled_witness:
  "\<not> is_file (fs demo_json_env) (toml_cfg demo_json_env)
   \<and> is_file (fs demo_json_env) (json_cfg demo_json_env)
   \<and> pyscript_config (snd (parse_pyscript_cfg demo_json_env project_init)) = ''pyscipt.json''
   \<and> parse_index_html demo_json_env (snd (parse_pyscript_cfg demo_json_env project_init))
       = Inr ''<script src=https://pyscript.net/releases/2024.1.1 type=py config=pyscipt.json>''"
proof -
  let ?q = "snd (parse_pyscript_cfg demo_json_env project_init)"
  let ?ctx = "[(''cdn'', ''https://pyscript.net/releases/2024.1.1''), (''script_type'', ''py''),
               (''main_script'', ''main.py''), (''pyscript_config'', ''pyscipt.json''),
               (''extra_script_params'', [])]"
  have a: "\<not> is_file (fs demo_json_env) (toml_cfg demo_json_env)"
    by code_simp
  have b: "is_file (fs demo_json_env) (json_cfg demo_json_env)"
    by code_simp
  have t: "read_file (fs demo_json_env) (index_template demo_json_env)
             = Inr (''<script src=$cdn type=$script_type config='' @ ''$pyscript_config'' @ ''>'')"
    by code_simp
  have c: "index_context demo_json_env ?q = Inr ?ctx"
    by code_simp
  have pre: "substitute ?ctx ''<script src=$cdn type=$script_type config=''
               = Inr ''<script src=https://pyscript.net/releases/2024.1.1 type=py config=''"
    by code_simp
  have post: "substitute ?ctx ''>'' = Inr ''>''"
    by code_simp
  have e: "''>'' = [] \<or> \<not> ident_char (hd ''>'')"
    by code_simp
  have "parse_index_html demo_json_env ?q
          = Inr (''<script src=https://pyscript.net/releases/2024.1.1 type=py config=''
                 @ ''pyscipt.json'' @ ''>'')"
    using json_manifest_name_misspelled [OF a b, of project_init] t c pre post e by blast
  then show ?thesis
    using json_manifest_name_misspelled [OF a b, of project_init] a b by simp
qed

end
